theory Spec2Isabelle
  imports Main "HOL-Library.Sublist"
begin

section \<open>mtdata command line: identifiers, acquisition record, workflows\<close>

text \<open>
  A shallow embedding of \<^verbatim>\<open>mtdata/main.py\<close>. Python strings are lists of characters
  (\<^typ>\<open>string\<close>), one \<^typ>\<open>char\<close> per code point below 256. Exceptions are values of
  the type \<open>error\<close>; a function that may raise returns \<open>error + 'a\<close> with \<open>Inl\<close> for
  the raised exception. Code of the package that lives outside \<^verbatim>\<open>main.py\<close> (the language
  tag registry, the identifier validator, the catalog, the acquisition step) is passed
  in as a record of functions.
\<close>

subsection \<open>Python string operations\<close>

text \<open>\<^verbatim>\<open>str.isspace\<close> on one code point below 256.\<close>

definition isspace :: "char \<Rightarrow> bool" where
  "isspace c = ((of_char c :: nat) \<in> {9, 10, 11, 12, 13, 28, 29, 30, 31, 32, 133, 160})"

text \<open>\<^verbatim>\<open>s.strip()\<close>: whitespace removed at both ends.\<close>

definition strip :: "string \<Rightarrow> string" where
  "strip s = rev (dropWhile isspace (rev (dropWhile isspace s)))"

text \<open>
  \<^verbatim>\<open>s.split(sep)\<close> for a one-character separator: the pieces between the separators,
  empty pieces kept, so the result is never the empty list.
\<close>

fun split :: "char \<Rightarrow> string \<Rightarrow> string list" where
  "split sep [] = [[]]"
| "split sep (c # cs) =
     (if c = sep then [] # split sep cs
      else (case split sep cs of
              [] \<Rightarrow> [[c]]
            | p # ps \<Rightarrow> (c # p) # ps))"

text \<open>\<^verbatim>\<open>sep.join(xs)\<close>.\<close>

fun join :: "string \<Rightarrow> string list \<Rightarrow> string" where
  "join sep [] = []"
| "join sep [x] = x"
| "join sep (x # y # ys) = x @ sep @ join sep (y # ys)"

subsection \<open>Exceptions and log records\<close>

text \<open>
  \<open>ArgumentTypeError\<close> is \<^verbatim>\<open>argparse.ArgumentTypeError\<close>, \<open>AssertionError\<close> a failed
  \<^verbatim>\<open>assert\<close>, \<open>ValueError\<close> and \<open>AttributeError\<close> the built-in exceptions of those names,
  \<open>Exception\<close> a plain \<^verbatim>\<open>Exception(msg)\<close> raised by \<^verbatim>\<open>main.py\<close>, \<open>ArgparseExit\<close> the exit of the
  argument parser on a rejected command line, and \<open>External\<close> an exception raised by code
  outside \<^verbatim>\<open>main.py\<close>. Each carries its message.
\<close>

datatype error =
    ArgumentTypeError string
  | AssertionError string
  | ValueError string
  | AttributeError string
  | Exception string
  | ArgparseExit string
  | External string

fun err_msg :: "error \<Rightarrow> string" where
  "err_msg (ArgumentTypeError m) = m"
| "err_msg (AssertionError m) = m"
| "err_msg (ValueError m) = m"
| "err_msg (AttributeError m) = m"
| "err_msg (Exception m) = m"
| "err_msg (ArgparseExit m) = m"
| "err_msg (External m) = m"

subsection \<open>Language tags and language pairs\<close>

text \<open>
  Modelled from the spec: \<^verbatim>\<open>BCP47Tag\<close> (defined in \<^verbatim>\<open>mtdata/iso/bcp47.py\<close>, outside
  \<^verbatim>\<open>main.py\<close>). The spec says that two tags are equal iff their canonical string forms are
  equal, so a tag is its canonical string form, and \<^verbatim>\<open>str(tag)\<close> returns it.
\<close>

datatype BCP47Tag = BCP47Tag (tag_str: string)

type_synonym LangPair = "BCP47Tag \<times> BCP47Tag"

text \<open>\<^verbatim>\<open>'-'.join(str(lang) for lang in langs)\<close>\<close>

definition LangPair_str :: "LangPair \<Rightarrow> string" where
  "LangPair_str langs = join ''-'' (map tag_str [fst langs, snd langs])"

text \<open>
  Lines written with \<^verbatim>\<open>log.info\<close>. \<open>Suggestion std_form given\<close> is the line
  \<^verbatim>\<open>Suggestion: Use codes {std_form} instead of {string}. ...\<close> of \<^verbatim>\<open>lang_pair\<close>; the others
  carry the text of the line.
\<close>

datatype log_record =
    Suggestion string string
  | Info string

text \<open>
  \<^verbatim>\<open>lang_pair\<close>, with the registry function \<^verbatim>\<open>bcp47\<close> as a parameter. The result is the
  value or exception together with the log lines written.
\<close>

definition lang_pair ::
  "(string \<Rightarrow> error + BCP47Tag) \<Rightarrow> string \<Rightarrow> (error + LangPair) \<times> log_record list" where
  "lang_pair bcp47 string =
     (let parts = split CHR ''-'' string in
      if length parts \<noteq> 2 then
        (Inl (ArgumentTypeError
           (''expected value of form \"xxx-yyz\" eg \"deu-eng\"; given '' @ string)), [])
      else
        (case bcp47 (parts ! 0) of
           Inl e \<Rightarrow> (Inl e, [])
         | Inr t0 \<Rightarrow>
            (case bcp47 (parts ! 1) of
               Inl e \<Rightarrow> (Inl e, [])
             | Inr t1 \<Rightarrow>
                (let std_codes = (t0, t1);
                     std_form = LangPair_str std_codes
                 in (Inr std_codes,
                     if std_form \<noteq> string then [Suggestion std_form string] else [])))))"

subsection \<open>Dataset identifiers\<close>

text \<open>
  Modelled from the spec: \<^verbatim>\<open>DatasetId\<close> (defined in \<^verbatim>\<open>mtdata/entry.py\<close>, outside
  \<^verbatim>\<open>main.py\<close>). The spec gives it the fields \<open>group\<close>, \<open>name\<close>, \<open>version\<close> and \<open>langs\<close>, built from
  the four values handed to the constructor, and the string form
  \<^verbatim>\<open>group-name-version-source-target\<close>. The constructor's own validation is the parameter
  \<open>check\<close>: \<open>Some m\<close> when it raises with message \<open>m\<close>.
\<close>

record DatasetId =
  group :: string
  name :: string
  version :: string
  langs :: LangPair

text \<open>
  Modelled from the spec: the constructor of \<^verbatim>\<open>DatasetId\<close>. It raises when its validation
  does and stores the four values otherwise.
\<close>

definition DatasetId_init ::
  "(string \<Rightarrow> string \<Rightarrow> string \<Rightarrow> LangPair \<Rightarrow> string option) \<Rightarrow>
   string \<Rightarrow> string \<Rightarrow> string \<Rightarrow> LangPair \<Rightarrow> error + DatasetId" where
  "DatasetId_init check g n v l =
     (case check g n v l of
        Some m \<Rightarrow> Inl (External m)
      | None \<Rightarrow> Inr \<lparr>group = g, name = n, version = v, langs = l\<rparr>)"

text \<open>
  Modelled from the spec: \<^verbatim>\<open>str(did)\<close> for a \<^verbatim>\<open>DatasetId\<close>, the five fields joined by
  hyphens.
\<close>

definition DatasetId_str :: "DatasetId \<Rightarrow> string" where
  "DatasetId_str d =
     join ''-'' [group d, name d, version d, tag_str (fst (langs d)), tag_str (snd (langs d))]"

definition expected_format :: string where
  "expected_format = ''<group>-<name>-<version>-<l1>-<l2>''"

definition dataset_id_msg :: "string \<Rightarrow> string" where
  "dataset_id_msg string =
     ''Dataset ID expected in format: '' @ expected_format @ ''; but given '' @ string @ ''.''
     @ '' If you are unsure, run \"mtdata list | grep -i <name>\" and copy its id.''"

text \<open>\<^verbatim>\<open>dataset_id\<close>, with the registry and the constructor's validation as parameters.\<close>

definition dataset_id ::
  "(string \<Rightarrow> error + BCP47Tag) \<Rightarrow>
   (string \<Rightarrow> string \<Rightarrow> string \<Rightarrow> LangPair \<Rightarrow> string option) \<Rightarrow>
   string \<Rightarrow> (error + DatasetId) \<times> log_record list" where
  "dataset_id bcp47 check string =
     (let parts = split CHR ''-'' (strip string) in
      if length parts \<noteq> 5 then
        (Inl (ArgumentTypeError (dataset_id_msg string)), [])
      else
        (let g = parts ! 0; n = parts ! 1; v = parts ! 2;
             lang1 = parts ! 3; lang2 = parts ! 4
         in case lang_pair bcp47 (lang1 @ ''-'' @ lang2) of
              (Inl e, lg) \<Rightarrow> (Inl e, lg)
            | (Inr l, lg) \<Rightarrow>
               (case DatasetId_init check g n v l of
                  Inl e \<Rightarrow> (Inl (ArgumentTypeError (err_msg e)), lg)
                | Inr did \<Rightarrow> (Inr did, lg))))"

subsection \<open>Paths\<close>

text \<open>
  A \<^verbatim>\<open>pathlib.Path\<close> as its parsed form: whether it is anchored at the root, and its
  components. \<open>Path_str\<close> is \<^verbatim>\<open>str(path)\<close>, \<open>Path_div\<close> is \<^verbatim>\<open>path / name\<close> for a single
  component, \<open>Path_name\<close> the final component (empty when there is none).
\<close>

datatype Path = Path (absolute: bool) (parts: "string list")

definition Path_str :: "Path \<Rightarrow> string" where
  "Path_str p =
     (if absolute p then ''/'' @ join ''/'' (parts p)
      else if parts p = [] then ''.'' else join ''/'' (parts p))"

definition Path_div :: "Path \<Rightarrow> string \<Rightarrow> Path" where
  "Path_div p n = Path (absolute p) (parts p @ [n])"

definition Path_name :: "Path \<Rightarrow> string" where
  "Path_name p = (if parts p = [] then [] else last (parts p))"

text \<open>\<^verbatim>\<open>s.rfind(c)\<close>: the last index of \<open>c\<close>, \<open>None\<close> for Python's \<open>-1\<close>.\<close>

definition rfind :: "char \<Rightarrow> string \<Rightarrow> nat option" where
  "rfind c s =
     (if c \<in> set s then Some (length s - 1 - length (takeWhile (\<lambda>x. x \<noteq> c) (rev s)))
      else None)"

text \<open>
  \<^verbatim>\<open>Path.suffix\<close>: the final component from its last dot on, when that dot is neither its
  first nor its last character.
\<close>

definition Path_suffix :: "Path \<Rightarrow> string" where
  "Path_suffix p =
     (let n = Path_name p in
      case rfind CHR ''.'' n of
        None \<Rightarrow> []
      | Some i \<Rightarrow> if 0 < i \<and> i + 1 < length n then drop i n else [])"

text \<open>
  \<^verbatim>\<open>Path.with_suffix(suffix)\<close>: raises \<^verbatim>\<open>ValueError\<close> on an invalid suffix and on a path
  with an empty name; otherwise the old suffix of the final component is replaced, or the
  new one added when there was none.
\<close>

definition with_suffix :: "Path \<Rightarrow> string \<Rightarrow> error + Path" where
  "with_suffix p suf =
     (if CHR ''/'' \<in> set suf then Inl (ValueError (''Invalid suffix '' @ suf))
      else if (suf \<noteq> [] \<and> hd suf \<noteq> CHR ''.'') \<or> suf = ''.''
        then Inl (ValueError (''Invalid suffix '' @ suf))
      else if Path_name p = [] then Inl (ValueError (Path_str p @ '' has an empty name''))
      else
        (let n = Path_name p; old_suffix = Path_suffix p;
             n' = (if old_suffix = [] then n @ suf
                   else take (length n - length old_suffix) n @ suf)
         in Inr (Path (absolute p) (butlast (parts p) @ [n']))))"

subsection \<open>The world the program runs in\<close>

text \<open>
  The catalog query: the four arguments of \<^verbatim>\<open>get_entries\<close>.
\<close>

record query =
  q_langs :: "LangPair option"
  q_names :: "string list option"
  q_not_names :: "string list option"
  fuzzy_match :: bool

text \<open>
  The state outside the process: the files on disk with their contents, the requests
  sent over the network, the lines logged, the text printed on standard output, and
  whether verbose mode is on (\<^verbatim>\<open>mtdata.debug_mode\<close> and the \<^verbatim>\<open>DEBUG\<close> log level).
\<close>

record world =
  files :: "Path \<rightharpoonup> string"
  net :: "string list"
  logged :: "log_record list"
  stdout :: string
  debug_mode :: bool

definition log_info :: "log_record \<Rightarrow> world \<Rightarrow> world" where
  "log_info r w = w\<lparr>logged := logged w @ [r]\<rparr>"

definition newline :: string where
  "newline = [CHR 0x0A]"

definition tab :: string where
  "tab = [CHR 0x09]"

text \<open>\<^verbatim>\<open>print(s, end=e)\<close>; the plain \<^verbatim>\<open>print(s)\<close> ends with one newline.\<close>

definition print_end :: "string \<Rightarrow> string \<Rightarrow> world \<Rightarrow> world" where
  "print_end s e w = w\<lparr>stdout := stdout w @ s @ e\<rparr>"

definition print :: "string \<Rightarrow> world \<Rightarrow> world" where
  "print s w = print_end s newline w"

text \<open>\<^verbatim>\<open>path.exists()\<close> and \<^verbatim>\<open>path.rename(target)\<close> (POSIX: an existing target is replaced).\<close>

definition Path_exists :: "world \<Rightarrow> Path \<Rightarrow> bool" where
  "Path_exists w p = (files w p \<noteq> None)"

definition Path_rename :: "Path \<Rightarrow> Path \<Rightarrow> world \<Rightarrow> world" where
  "Path_rename src dst w = w\<lparr>files := ((files w)(src := None))(dst := files w src)\<rparr>"

text \<open>
  Modelled from the spec: \<^verbatim>\<open>IO.writer\<close> (defined in \<^verbatim>\<open>mtdata/utils.py\<close>, outside
  \<^verbatim>\<open>main.py\<close>). The spec says of the signature file that the record is appended, never
  overwriting: with \<^verbatim>\<open>append=True\<close> the text written follows the content the file had (none
  when the file did not exist); without, it replaces it.
\<close>

definition IO_writer_write :: "Path \<Rightarrow> bool \<Rightarrow> string \<Rightarrow> world \<Rightarrow> world" where
  "IO_writer_write p app s w =
     (let old = (case files w p of None \<Rightarrow> [] | Some c \<Rightarrow> c)
      in w\<lparr>files := (files w)(p \<mapsto> (if app then old @ s else s))\<rparr>)"

subsection \<open>Catalog entries, datasets, and the code outside \<^verbatim>\<open>main.py\<close>\<close>

text \<open>
  A catalog entry as \<^verbatim>\<open>main.py\<close> reads it: \<^verbatim>\<open>ent.langs\<close>, \<^verbatim>\<open>ent.name\<close>, \<^verbatim>\<open>ent.cite\<close> and
  \<^verbatim>\<open>ent.format(delim)\<close>. A prepared dataset has its directory \<^verbatim>\<open>dataset.dir\<close>.
\<close>

record Entry =
  ent_langs :: "string list"
  ent_name :: string
  cite :: "string option"
  ent_format :: "string \<Rightarrow> string"

record Dataset =
  dir :: Path

text \<open>
  What \<^verbatim>\<open>main.py\<close> imports from the rest of the package: the registry function
  \<^verbatim>\<open>bcp47\<close>, the validation done by the constructor of \<^verbatim>\<open>DatasetId\<close>, \<^verbatim>\<open>get_entries\<close>,
  \<^verbatim>\<open>Dataset.prepare\<close>, \<^verbatim>\<open>__version__\<close>, \<^verbatim>\<open>cache_dir\<close> and \<^verbatim>\<open>cached_index_file\<close>. The
  functions that reach the disk and the network take the world and return it changed,
  also when they raise. \<open>import_mtdata_data\<close> is the module code of \<^verbatim>\<open>mtdata.data\<close>, run by
  the statement \<^verbatim>\<open>from mtdata.data import ...\<close> with which \<^verbatim>\<open>list_data\<close>, \<^verbatim>\<open>get_data\<close> and
  \<^verbatim>\<open>generate_report\<close> begin. \<open>python_O\<close> says whether the interpreter runs with \<^verbatim>\<open>-O\<close>,
  which removes every \<^verbatim>\<open>assert\<close> statement.
\<close>

record ext =
  bcp47 :: "string \<Rightarrow> error + BCP47Tag"
  DatasetId_check :: "string \<Rightarrow> string \<Rightarrow> string \<Rightarrow> LangPair \<Rightarrow> string option"
  get_entries :: "query \<Rightarrow> world \<Rightarrow> (error + Entry list) \<times> world"
  Dataset_prepare ::
    "LangPair \<Rightarrow> DatasetId list option \<Rightarrow> DatasetId list option \<Rightarrow> Path \<Rightarrow> Path \<Rightarrow> bool
     \<Rightarrow> world \<Rightarrow> (error + Dataset) \<times> world"
  mtdata_version :: string
  CACHE_DIR :: Path
  cached_index_file :: Path
  import_mtdata_data :: "world \<Rightarrow> (error + unit) \<times> world"
  python_O :: bool

text \<open>
  Modelled from the spec: the default of the parameter \<^verbatim>\<open>fuzzy_match\<close> of \<^verbatim>\<open>get_entries\<close>
  (defined in \<^verbatim>\<open>mtdata/data.py\<close>, outside \<^verbatim>\<open>main.py\<close>). \<^verbatim>\<open>generate_report\<close> calls
  \<^verbatim>\<open>get_entries\<close> without that argument; the spec says the report queries with
  \<^verbatim>\<open>fuzzy=false\<close>.
\<close>

definition fuzzy_match_default :: bool where
  "fuzzy_match_default = False"

subsection \<open>Numbers in formatted strings\<close>

definition digit :: "nat \<Rightarrow> char" where
  "digit n = char_of (48 + n)"

text \<open>\<^verbatim>\<open>str(n)\<close> for a count.\<close>

function str_nat :: "nat \<Rightarrow> string" where
  "str_nat n = (if n < 10 then [digit n] else str_nat (n div 10) @ [digit (n mod 10)])"
  by pat_completeness auto
termination
  by (relation "measure id") auto

text \<open>\<^verbatim>\<open>f'{n:,}'\<close>: groups of three digits separated by commas.\<close>

function fmt_commas :: "nat \<Rightarrow> string" where
  "fmt_commas n =
     (if n < 1000 then str_nat n
      else fmt_commas (n div 1000) @ '','' @
           [digit (n mod 1000 div 100), digit (n mod 100 div 10), digit (n mod 10)])"
  by pat_completeness auto
termination
  by (relation "measure id") auto

subsection \<open>The \<^verbatim>\<open>list\<close> and \<^verbatim>\<open>report\<close> workflows\<close>

text \<open>\<^verbatim>\<open>ent.cite or "CITATION_NOT_LISTED"\<close>: the placeholder for \<^verbatim>\<open>None\<close> and for the empty string.\<close>

definition cite_or :: "Entry \<Rightarrow> string" where
  "cite_or ent =
     (case cite ent of
        None \<Rightarrow> ''CITATION_NOT_LISTED''
      | Some c \<Rightarrow> if c = [] then ''CITATION_NOT_LISTED'' else c)"

definition list_data ::
  "ext \<Rightarrow> LangPair option \<Rightarrow> string list option \<Rightarrow> string list option \<Rightarrow> bool \<Rightarrow> world
   \<Rightarrow> (error + unit) \<times> world" where
  "list_data x lgs names not_names full w =
     (case import_mtdata_data x w of
        (Inl e, w0) \<Rightarrow> (Inl e, w0)
      | (Inr u, w0) \<Rightarrow>
         (case get_entries x
                 \<lparr>q_langs = lgs, q_names = names, q_not_names = not_names,
                  fuzzy_match = True\<rparr> w0 of
            (Inl e, w1) \<Rightarrow> (Inl e, w1)
          | (Inr entries, w1) \<Rightarrow>
             (let w2 = log_info (Info (''Found '' @ str_nat (length entries))) w1;
                  w3 = foldl (\<lambda>w ent.
                         let w' = print (ent_format ent tab) w
                         in if full then print_end (cite_or ent) (newline @ newline) w'
                            else w')
                       w2 entries
              in (Inr (), print (''Total '' @ str_nat (length entries) @ '' entries'') w3))))"

text \<open>
  \<^verbatim>\<open>stats[key] += 1\<close> on a \<^verbatim>\<open>defaultdict(int)\<close>, which keeps its keys in the order of their
  first insertion.
\<close>

definition bump :: "string \<Rightarrow> (string \<times> nat) list \<Rightarrow> (string \<times> nat) list" where
  "bump k stats =
     (if k \<in> fst ` set stats
      then map (\<lambda>(k', v). if k' = k then (k', v + 1) else (k', v)) stats
      else stats @ [(k, 1)])"

definition print_stats :: "(string \<times> nat) list \<Rightarrow> world \<Rightarrow> world" where
  "print_stats stats w = foldl (\<lambda>w (key, val). print (key @ tab @ fmt_commas val) w) w stats"

definition generate_report ::
  "ext \<Rightarrow> LangPair option \<Rightarrow> string list option \<Rightarrow> string list option \<Rightarrow> world
   \<Rightarrow> (error + unit) \<times> world" where
  "generate_report x lgs names not_names w =
     (case import_mtdata_data x w of
        (Inl e, w0) \<Rightarrow> (Inl e, w0)
      | (Inr u, w0) \<Rightarrow>
         (case get_entries x
                 \<lparr>q_langs = lgs, q_names = names, q_not_names = not_names,
                  fuzzy_match = fuzzy_match_default\<rparr> w0 of
            (Inl e, w1) \<Rightarrow> (Inl e, w1)
          | (Inr entries, w1) \<Rightarrow>
             (let lang_stats =
                    foldl (\<lambda>st ent. bump (join ''_'' (ent_langs ent)) st) [] entries;
                  name_stats = foldl (\<lambda>st ent. bump (ent_name ent) st) [] entries;
                  w2 = print_stats lang_stats (print ''Languages:'' w1);
                  w3 = print_stats name_stats (print (newline @ ''Names:'') w2)
              in (Inr (), w3))))"

definition list_experiments :: "world \<Rightarrow> (error + unit) \<times> world" where
  "list_experiments w = (Inl (Exception ''Not implemented yet''), w)"

subsection \<open>The \<^verbatim>\<open>get\<close> workflow\<close>

text \<open>
  The attributes of the namespace that the \<^verbatim>\<open>get\<close> subparser fills: \<^verbatim>\<open>langs\<close> and \<^verbatim>\<open>out\<close>
  are required, \<^verbatim>\<open>train_dids\<close> and \<^verbatim>\<open>test_dids\<close> are \<^verbatim>\<open>None\<close> when the option is absent and a
  list (possibly empty) of parsed identifiers otherwise.
\<close>

record get_args =
  get_langs :: LangPair
  train_dids :: "DatasetId list option"
  test_dids :: "DatasetId list option"
  merge :: bool
  out :: Path

text \<open>Python's truth value of \<^verbatim>\<open>None\<close> or a list, and the list iterated when it is true.\<close>

definition truthy :: "'a list option \<Rightarrow> bool" where
  "truthy xs = (case xs of None \<Rightarrow> False | Some l \<Rightarrow> l \<noteq> [])"

definition items :: "'a list option \<Rightarrow> 'a list" where
  "items xs = (case xs of None \<Rightarrow> [] | Some l \<Rightarrow> l)"

text \<open>The record composed in \<^verbatim>\<open>get_data\<close>: \<^verbatim>\<open>cli_sig\<close>, then \<^verbatim>\<open>sig\<close>.\<close>

definition cli_sig :: "get_args \<Rightarrow> string" where
  "cli_sig a =
     ''-l '' @ join ''-'' (map tag_str [fst (get_langs a), snd (get_langs a)])
     @ (if truthy (train_dids a)
        then '' -tr '' @ join '' '' (map DatasetId_str (items (train_dids a))) else [])
     @ (if truthy (test_dids a)
        then '' -ts '' @ join '' '' (map DatasetId_str (items (test_dids a))) else [])"

definition sig :: "ext \<Rightarrow> get_args \<Rightarrow> string" where
  "sig x a =
     ''mtdata get '' @ cli_sig a @ '' -o <out-dir>'' @ newline
     @ ''mtdata version '' @ mtdata_version x @ newline"

definition signature_file :: "get_args \<Rightarrow> Path" where
  "signature_file a = Path_div (out a) ''mtdata.signature.txt''"

text \<open>
  \<^verbatim>\<open>get_data\<close>: the import, the \<^verbatim>\<open>assert\<close> (absent under \<^verbatim>\<open>-O\<close>), the acquisition, the
  two log lines and the write to the signature file.
\<close>

definition get_data :: "ext \<Rightarrow> get_args \<Rightarrow> world \<Rightarrow> (error + unit) \<times> world" where
  "get_data x a w =
     (case import_mtdata_data x w of
        (Inl e, w0) \<Rightarrow> (Inl e, w0)
      | (Inr u, w0) \<Rightarrow>
         (if \<not> python_O x \<and> \<not> (truthy (train_dids a) \<or> truthy (test_dids a)) then
            (Inl (AssertionError ''Required --train or --test or both''), w0)
          else
            (case Dataset_prepare x (get_langs a) (train_dids a) (test_dids a) (out a)
                    (CACHE_DIR x) (merge a) w0 of
               (Inl e, w1) \<Rightarrow> (Inl e, w1)
             | (Inr dataset, w1) \<Rightarrow>
                (let w2 = log_info (Info (''Dataset is ready at ''
                                          @ Path_str (dir dataset))) w1;
                     w3 = log_info (Info (''mtdata args for reproducing this dataset:''
                                          @ newline @ '' '' @ sig x a)) w2
                 in (Inr (), IO_writer_write (signature_file a) True (sig x a) w3)))))"

subsection \<open>Argument parsing and \<^verbatim>\<open>main\<close>\<close>

text \<open>
  The namespace returned by \<^verbatim>\<open>parse_args\<close>: the global flags, the task, and the
  attributes of the subparser that ran.
\<close>

datatype sub_args =
    ListArgs "LangPair option" "string list option" "string list option" bool "Path option"
  | GetArgs get_args
  | ReportArgs "LangPair option" "string list option" "string list option"

record namespace =
  verbose :: bool
  reindex :: bool
  task :: string
  sub :: sub_args

text \<open>
  The library \<^verbatim>\<open>argparse\<close>, as far as \<^verbatim>\<open>parse_args\<close> relies on it. \<open>top_options\<close> is its
  handling of the options declared on the top-level parser (\<^verbatim>\<open>-vv\<close>, \<^verbatim>\<open>-v\<close>, \<^verbatim>\<open>-ri\<close> and the
  built-in \<^verbatim>\<open>-h\<close>) in front of the command word: it rejects the command line or exits, or
  gives the values of \<^verbatim>\<open>verbose\<close> and \<^verbatim>\<open>reindex\<close> and the arguments that remain, the command
  word first. \<open>list_p\<close>, \<open>get_p\<close> and \<open>report_p\<close> are its handling of the arguments after
  the command word by the three subparsers that \<^verbatim>\<open>parse_args\<close> creates with
  \<^verbatim>\<open>sub_ps.add_parser\<close>; they are given the converters named in \<^verbatim>\<open>type=\<close> and return the
  attributes the subparser sets, with the log lines the converters wrote.
\<close>

record argparse =
  top_options :: "string list \<Rightarrow> error + bool \<times> bool \<times> string list"
  list_p ::
    "(string \<Rightarrow> (error + LangPair) \<times> log_record list) \<Rightarrow> string list
     \<Rightarrow> (error + LangPair option \<times> string list option \<times> string list option \<times> bool
                 \<times> Path option) \<times> log_record list"
  get_p ::
    "(string \<Rightarrow> (error + LangPair) \<times> log_record list)
     \<Rightarrow> (string \<Rightarrow> (error + DatasetId) \<times> log_record list) \<Rightarrow> string list
     \<Rightarrow> (error + get_args) \<times> log_record list"
  report_p ::
    "(string \<Rightarrow> (error + LangPair) \<times> log_record list) \<Rightarrow> string list
     \<Rightarrow> (error + LangPair option \<times> string list option \<times> string list option)
        \<times> log_record list"

text \<open>
  The subparsers action created with \<^verbatim>\<open>add_subparsers(required=True, dest='task')\<close>: the
  command word is looked up among the names given to \<^verbatim>\<open>add_parser\<close>, which are \<^verbatim>\<open>list\<close>,
  \<^verbatim>\<open>get\<close> and \<^verbatim>\<open>report\<close>; \<open>None\<close> when it is not one of them, else the result of the
  subparser of that name on the remaining arguments.
\<close>

definition sub_ps ::
  "argparse \<Rightarrow> ext \<Rightarrow> string \<Rightarrow> string list
   \<Rightarrow> ((error + sub_args) \<times> log_record list) option" where
  "sub_ps ap x cmd cargs =
     (if cmd = ''list'' then
        Some (case list_p ap (lang_pair (bcp47 x)) cargs of
                (Inl e, lg) \<Rightarrow> (Inl e, lg)
              | (Inr (lgs, names, not_names, full, out_dir), lg) \<Rightarrow>
                  (Inr (ListArgs lgs names not_names full out_dir), lg))
      else if cmd = ''get'' then
        Some (case get_p ap (lang_pair (bcp47 x))
                     (dataset_id (bcp47 x) (DatasetId_check x)) cargs of
                (Inl e, lg) \<Rightarrow> (Inl e, lg)
              | (Inr a, lg) \<Rightarrow> (Inr (GetArgs a), lg))
      else if cmd = ''report'' then
        Some (case report_p ap (lang_pair (bcp47 x)) cargs of
                (Inl e, lg) \<Rightarrow> (Inl e, lg)
              | (Inr (lgs, names, not_names), lg) \<Rightarrow>
                  (Inr (ReportArgs lgs names not_names), lg))
      else None)"

text \<open>
  \<^verbatim>\<open>parse_args\<close> on the argument vector. A command line without a command word, or with
  one that names no subparser, is rejected; otherwise \<^verbatim>\<open>args.task\<close> is the command word.
  With \<^verbatim>\<open>verbose\<close> set, verbose mode is switched on before the namespace is returned.
\<close>

definition parse_args ::
  "argparse \<Rightarrow> ext \<Rightarrow> string list \<Rightarrow> world \<Rightarrow> (error + namespace) \<times> world" where
  "parse_args ap x argv w =
     (case top_options ap argv of
        Inl e \<Rightarrow> (Inl e, w)
      | Inr (vb, ri, rest) \<Rightarrow>
         (case rest of
            [] \<Rightarrow> (Inl (ArgparseExit ''the following arguments are required: task''), w)
          | cmd # cargs \<Rightarrow>
             (case sub_ps ap x cmd cargs of
                None \<Rightarrow> (Inl (ArgparseExit (''argument task: invalid choice: '' @ cmd)), w)
              | Some (Inl e, lg) \<Rightarrow> (Inl e, w\<lparr>logged := logged w @ lg\<rparr>)
              | Some (Inr sa, lg) \<Rightarrow>
                 (let args = \<lparr>verbose = vb, reindex = ri, task = cmd, sub = sa\<rparr>;
                      w1 = w\<lparr>logged := logged w @ lg\<rparr>
                  in (Inr args, if verbose args then w1\<lparr>debug_mode := True\<rparr> else w1)))))"

text \<open>The first step of \<^verbatim>\<open>main\<close>: the cached index is set aside when \<^verbatim>\<open>-ri\<close> is given.\<close>

definition main_reindex :: "ext \<Rightarrow> namespace \<Rightarrow> world \<Rightarrow> (error + unit) \<times> world" where
  "main_reindex x args w =
     (if reindex args \<and> Path_exists w (cached_index_file x) then
        (case with_suffix (cached_index_file x) ''.bak'' of
           Inl e \<Rightarrow> (Inl e, w)
         | Inr bak_file \<Rightarrow>
            (let w1 = log_info (Info (''Invalidate index: '' @ Path_str (cached_index_file x)
                                      @ '' -> '' @ Path_str bak_file)) w
             in (Inr (), Path_rename (cached_index_file x) bak_file w1)))
      else (Inr (), w))"

text \<open>The chain of comparisons on \<^verbatim>\<open>args.task\<close> in \<^verbatim>\<open>main\<close>, one value per branch.\<close>

datatype branch = RunList | RunGet | RunListExp | RunReport | RunElse

definition main_branch :: "string \<Rightarrow> branch" where
  "main_branch t =
     (if t = ''list'' then RunList
      else if t = ''get'' then RunGet
      else if t = ''list_exp'' then RunListExp
      else if t = ''report'' then RunReport
      else RunElse)"

text \<open>
  The second step of \<^verbatim>\<open>main\<close>. Reading an attribute that the subparser did not set
  raises \<^verbatim>\<open>AttributeError\<close>.
\<close>

definition main_dispatch :: "ext \<Rightarrow> namespace \<Rightarrow> world \<Rightarrow> (error + unit) \<times> world" where
  "main_dispatch x args w =
     (case main_branch (task args) of
        RunList \<Rightarrow>
          (case sub args of
             ListArgs lgs names not_names full out_ignored \<Rightarrow>
               list_data x lgs names not_names full w
           | GetArgs a \<Rightarrow>
               (Inl (AttributeError ''Namespace object has no attribute names''), w)
           | ReportArgs lgs names not_names \<Rightarrow>
               (Inl (AttributeError ''Namespace object has no attribute full''), w))
      | RunGet \<Rightarrow>
          (case sub args of
             GetArgs a \<Rightarrow> get_data x a w
           | _ \<Rightarrow> (Inl (AttributeError ''Namespace object has no attribute train_dids''), w))
      | RunListExp \<Rightarrow> list_experiments w
      | RunReport \<Rightarrow>
          (case sub args of
             ReportArgs lgs names not_names \<Rightarrow> generate_report x lgs names not_names w
           | ListArgs lgs names not_names full out_ignored \<Rightarrow>
               generate_report x lgs names not_names w
           | GetArgs a \<Rightarrow>
               (Inl (AttributeError ''Namespace object has no attribute names''), w))
      | RunElse \<Rightarrow> (Inl (Exception (task args @ '' not implemented'')), w))"

text \<open>\<^verbatim>\<open>main\<close> from its second statement on, for the namespace that \<^verbatim>\<open>parse_args\<close> returned.\<close>

definition main :: "ext \<Rightarrow> namespace \<Rightarrow> world \<Rightarrow> (error + unit) \<times> world" where
  "main x args w =
     (case main_reindex x args w of
        (Inl e, w1) \<Rightarrow> (Inl e, w1)
      | (Inr u, w1) \<Rightarrow> main_dispatch x args w1)"

text \<open>The whole of \<^verbatim>\<open>main\<close>: \<^verbatim>\<open>parse_args\<close> on the argument vector first.\<close>

definition main_argv ::
  "argparse \<Rightarrow> ext \<Rightarrow> string list \<Rightarrow> world \<Rightarrow> (error + unit) \<times> world" where
  "main_argv ap x argv w =
     (case parse_args ap x argv w of
        (Inl e, w1) \<Rightarrow> (Inl e, w1)
      | (Inr args, w1) \<Rightarrow> main x args w1)"

subsection \<open>Codes in canonical form\<close>

text \<open>
  A language code is in canonical form for a registry when the registry resolves it and
  the string form of the tag it resolves to is the code itself.
\<close>

definition canonical :: "(string \<Rightarrow> error + BCP47Tag) \<Rightarrow> string \<Rightarrow> bool" where
  "canonical reg c = (case reg c of Inl e \<Rightarrow> False | Inr t \<Rightarrow> tag_str t = c)"

subsection \<open>The record as the spec words it\<close>

text \<open>
  The reproducibility record following the words of the spec, section 4.5: the language
  pair, the train and test identifier strings as the user supplied them, the output
  directory given with \<^verbatim>\<open>-o\<close>, and the tool version. It is compared with \<open>sig\<close> below.
\<close>

definition spec_signature ::
  "LangPair \<Rightarrow> string list \<Rightarrow> string list \<Rightarrow> string \<Rightarrow> string \<Rightarrow> string" where
  "spec_signature l train_ids test_ids out_dir ver =
     ''mtdata get -l '' @ LangPair_str l
     @ (if train_ids \<noteq> [] then '' -tr '' @ join '' '' train_ids else [])
     @ (if test_ids \<noteq> [] then '' -ts '' @ join '' '' test_ids else [])
     @ '' -o '' @ out_dir @ newline
     @ ''mtdata version '' @ ver @ newline"

subsection \<open>A small instance to run the definitions on\<close>

text \<open>
  A registry that knows German and English under their two- and three-letter codes, a
  constructor that accepts every identifier, a catalog with no dataset named \<open>nosuch\<close>,
  an acquisition step that writes one file per call, a module \<^verbatim>\<open>mtdata.data\<close> whose import
  builds the index cache when the file is missing, and an argument parser that knows the
  options in their full spelling only.
\<close>

definition sample_bcp47 :: "string \<Rightarrow> error + BCP47Tag" where
  "sample_bcp47 s =
     (if s = ''de'' \<or> s = ''deu'' then Inr (BCP47Tag ''deu'')
      else if s = ''en'' \<or> s = ''eng'' then Inr (BCP47Tag ''eng'')
      else Inl (External (''unknown language '' @ s)))"

definition sample_check :: "string \<Rightarrow> string \<Rightarrow> string \<Rightarrow> LangPair \<Rightarrow> string option" where
  "sample_check g n v l = None"

definition sample_get_entries :: "query \<Rightarrow> world \<Rightarrow> (error + Entry list) \<times> world" where
  "sample_get_entries q w =
     (Inr [\<lparr>ent_langs = [''deu'', ''eng''], ent_name = ''europarl'', cite = None,
            ent_format = (\<lambda>d. ''Statmt-europarl-10-deu-eng'' @ d @ ''http://example.org'')\<rparr>], w)"

definition sample_prepare ::
  "LangPair \<Rightarrow> DatasetId list option \<Rightarrow> DatasetId list option \<Rightarrow> Path \<Rightarrow> Path \<Rightarrow> bool
   \<Rightarrow> world \<Rightarrow> (error + Dataset) \<times> world" where
  "sample_prepare l tr ts out_dir cache mrg w =
     (if ''nosuch'' \<in> set (map name (items tr @ items ts))
      then (Inl (External ''nosuch: no such dataset in the catalog''),
            w\<lparr>net := net w @ [''index'']\<rparr>)
      else (Inr \<lparr>dir = out_dir\<rparr>,
            w\<lparr>files := (files w)(Path_div out_dir ''train.deu'' \<mapsto> ''Hallo''),
              net := net w @ [''download'']\<rparr>))"

definition sample_index_file :: Path where
  "sample_index_file = Path True [''home'', ''u'', ''.mtdata'', ''mtdata.index.pkl'']"

definition sample_import :: "world \<Rightarrow> (error + unit) \<times> world" where
  "sample_import w =
     (Inr (),
      if files w sample_index_file = None
      then w\<lparr>files := (files w)(sample_index_file \<mapsto> ''index''), net := net w @ [''index'']\<rparr>
      else w)"

definition sample_ext :: ext where
  "sample_ext =
     \<lparr>bcp47 = sample_bcp47, DatasetId_check = sample_check,
      get_entries = sample_get_entries, Dataset_prepare = sample_prepare,
      mtdata_version = ''0.2.8'',
      CACHE_DIR = Path True [''home'', ''u'', ''.mtdata''],
      cached_index_file = sample_index_file,
      import_mtdata_data = sample_import, python_O = False\<rparr>"

definition deu_eng :: LangPair where
  "deu_eng = (BCP47Tag ''deu'', BCP47Tag ''eng'')"

definition sample_did :: "string \<Rightarrow> DatasetId" where
  "sample_did n = \<lparr>group = ''Statmt'', name = n, version = ''16'', langs = deu_eng\<rparr>"

definition tmp_x :: Path where
  "tmp_x = Path True [''tmp'', ''x'']"

definition sample_world :: world where
  "sample_world =
     \<lparr>files = [Path_div tmp_x ''mtdata.signature.txt'' \<mapsto> ''earlier record'' @ newline,
               sample_index_file \<mapsto> ''index''],
      net = [], logged = [], stdout = [], debug_mode = False\<rparr>"

definition empty_world :: world where
  "empty_world =
     \<lparr>files = Map.empty, net = [], logged = [], stdout = [], debug_mode = False\<rparr>"

definition sample_get_args :: get_args where
  "sample_get_args =
     \<lparr>get_langs = deu_eng, train_dids = Some [sample_did ''newscomm''], test_dids = None,
      merge = False, out = tmp_x\<rparr>"

definition sample_namespace :: namespace where
  "sample_namespace =
     \<lparr>verbose = False, reindex = True, task = ''get'', sub = GetArgs sample_get_args\<rparr>"

definition no_ids_args :: get_args where
  "no_ids_args =
     \<lparr>get_langs = deu_eng, train_dids = Some [], test_dids = None, merge = False,
      out = tmp_x\<rparr>"

fun sample_top_options :: "string list \<Rightarrow> error + bool \<times> bool \<times> string list" where
  "sample_top_options [] = Inr (False, False, [])"
| "sample_top_options (a # as) =
     (if a = ''-vv'' \<or> a = ''--verbose'' then
        (case sample_top_options as of
           Inl e \<Rightarrow> Inl e
         | Inr (vb, ri, rest) \<Rightarrow> Inr (True, ri, rest))
      else if a = ''-ri'' \<or> a = ''--reindex'' then
        (case sample_top_options as of
           Inl e \<Rightarrow> Inl e
         | Inr (vb, ri, rest) \<Rightarrow> Inr (vb, True, rest))
      else if a = ''-v'' \<or> a = ''--version'' then Inl (ArgparseExit ''mtdata 0.2.8'')
      else if a \<noteq> [] \<and> hd a = CHR ''-'' then
        Inl (ArgparseExit (''unrecognized arguments: '' @ a))
      else Inr (False, False, a # as))"

definition sample_argparse :: argparse where
  "sample_argparse =
     \<lparr>top_options = sample_top_options,
      list_p = (\<lambda>cl cargs.
         if cargs = [] then (Inr (None, None, None, False, None), [])
         else (Inl (ArgparseExit ''unrecognized arguments''), [])),
      get_p = (\<lambda>cl cd cargs.
         (Inl (ArgparseExit ''the following arguments are required: -l/--langs, -o/--out''),
          [])),
      report_p = (\<lambda>cl cargs.
         if cargs = [] then (Inr (None, None, None), [])
         else (Inl (ArgparseExit ''unrecognized arguments''), []))\<rparr>"

subsection \<open>Facts about the string operations\<close>

lemma split_not_Nil: "split sep s \<noteq> []"
  by (induction s) (auto split: list.splits)

lemma join_split: "join [sep] (split sep s) = s"
proof (induction s)
  case Nil
  show ?case by simp
next
  case (Cons c cs)
  obtain p ps where ps: "split sep cs = p # ps"
    using split_not_Nil [of sep cs] by (cases "split sep cs") auto
  with Cons show ?case
    by (cases ps) auto
qed

lemma split_parts_no_sep: "p \<in> set (split sep s) \<Longrightarrow> sep \<notin> set p"
proof (induction s arbitrary: p)
  case Nil
  then show ?case by simp
next
  case (Cons c cs)
  obtain q qs where qs: "split sep cs = q # qs"
    using split_not_Nil [of sep cs] by (cases "split sep cs") auto
  from Cons.prems qs Cons.IH [of q] Cons.IH [of p] show ?case
    by (auto split: if_splits)
qed

lemma split_append_sep:
  "sep \<notin> set a \<Longrightarrow> split sep (a @ sep # rest) = a # split sep rest"
  by (induction a) auto

lemma split_no_sep: "sep \<notin> set a \<Longrightarrow> split sep a = [a]"
  by (induction a) auto

lemma length_5_iff:
  "length xs = 5 \<longleftrightarrow> (\<exists>a b c d e. xs = [a, b, c, d, e])"
  by (auto simp: length_Suc_conv eval_nat_numeral)

subsection \<open>Malformed identifiers\<close>

text \<open>
  C7. When the stripped input does not split on \<^verbatim>\<open>-\<close> into exactly five parts,
  \<^verbatim>\<open>dataset_id\<close> raises \<^verbatim>\<open>ArgumentTypeError\<close> (the spec's format error) and nothing else,
  writes no log line, and the message contains the five-field template and the input as
  given.
\<close>

theorem dataset_id_malformed:
  assumes "length (split CHR ''-'' (strip s)) \<noteq> 5"
  shows "dataset_id reg chk s = (Inl (ArgumentTypeError (dataset_id_msg s)), [])
       \<and> sublist ''<group>-<name>-<version>-<l1>-<l2>'' (dataset_id_msg s)
       \<and> sublist s (dataset_id_msg s)"
proof -
  have "dataset_id reg chk s = (Inl (ArgumentTypeError (dataset_id_msg s)), [])"
    using assms unfolding dataset_id_def by simp
  moreover have "sublist ''<group>-<name>-<version>-<l1>-<l2>'' (dataset_id_msg s)"
    unfolding dataset_id_msg_def expected_format_def sublist_def by (metis append.assoc)
  moreover have "sublist s (dataset_id_msg s)"
    unfolding dataset_id_msg_def sublist_def by (metis append.assoc)
  ultimately show ?thesis by simp
qed

theorem dataset_id_malformed_witness:
  "length (split CHR ''-'' (strip ''only-four-fields-here'')) \<noteq> 5
   \<and> dataset_id sample_bcp47 sample_check ''only-four-fields-here''
       = (Inl (ArgumentTypeError (dataset_id_msg ''only-four-fields-here'')), [])"
proof -
  have h: "length (split CHR ''-'' (strip ''only-four-fields-here'')) \<noteq> 5"
    by (simp add: strip_def isspace_def)
  show ?thesis
    using h dataset_id_malformed [OF h, of sample_bcp47 sample_check] by simp
qed

subsection \<open>Helper facts about the workflows\<close>

lemma canonicalD: "canonical reg c \<Longrightarrow> \<exists>t. reg c = Inr t \<and> tag_str t = c"
  by (auto simp: canonical_def split: sum.splits)

lemma get_data_success:
  assumes "truthy (train_dids a) \<or> truthy (test_dids a)"
    and "import_mtdata_data x w = (Inr (), w0)"
    and "Dataset_prepare x (get_langs a) (train_dids a) (test_dids a) (out a)
           (CACHE_DIR x) (merge a) w0 = (Inr ds, w1)"
  shows "fst (get_data x a w) = Inr ()"
    and "files (snd (get_data x a w))
         = (files w1)(signature_file a \<mapsto>
              (case files w1 (signature_file a) of None \<Rightarrow> [] | Some c \<Rightarrow> c) @ sig x a)"
  using assms by (simp_all add: get_data_def Let_def IO_writer_write_def log_info_def)

lemma sig_spec:
  "sig x a = spec_signature (get_langs a) (map DatasetId_str (items (train_dids a)))
               (map DatasetId_str (items (test_dids a))) ''<out-dir>'' (mtdata_version x)"
  by (simp add: sig_def cli_sig_def spec_signature_def LangPair_str_def truthy_def items_def
           split: option.splits)

lemma sample_prepare_ok:
  "Dataset_prepare sample_ext (get_langs sample_get_args) (train_dids sample_get_args)
     (test_dids sample_get_args) (out sample_get_args) (CACHE_DIR sample_ext)
     (merge sample_get_args) sample_world
   = (Inr \<lparr>dir = tmp_x\<rparr>,
      sample_world\<lparr>files := (files sample_world)(Path_div tmp_x ''train.deu'' \<mapsto> ''Hallo''),
        net := [''download'']\<rparr>)"
  by (simp add: sample_ext_def sample_index_file_def sample_prepare_def sample_get_args_def items_def
        sample_did_def sample_world_def)

lemma sample_truthy: "truthy (train_dids sample_get_args) \<or> truthy (test_dids sample_get_args)"
  by (simp add: sample_get_args_def truthy_def)

lemma sample_import_ok: "import_mtdata_data sample_ext sample_world = (Inr (), sample_world)"
  by (simp add: sample_ext_def sample_index_file_def sample_import_def sample_world_def)

lemma foldl_stdout:
  assumes "\<And>w e. f w e = w\<lparr>stdout := stdout w @ h e\<rparr>"
  shows "foldl f w es = w\<lparr>stdout := stdout w @ concat (map h es)\<rparr>"
  by (induction es arbitrary: w) (simp_all add: assms)

lemma print_stats_stdout:
  "print_stats st w
   = w\<lparr>stdout := stdout w @ concat (map (\<lambda>(k, v). k @ tab @ fmt_commas v @ newline) st)\<rparr>"
  unfolding print_stats_def
  by (rule foldl_stdout) (simp add: print_def print_end_def split: prod.splits)

lemma split_two:
  assumes "CHR ''-'' \<notin> set a" and "CHR ''-'' \<notin> set b"
  shows "split CHR ''-'' (a @ ''-'' @ b) = [a, b]"
  using assms by (simp add: split_append_sep split_no_sep)

lemma list_data_found:
  assumes "import_mtdata_data x w = (Inr (), w0)"
   and g: "get_entries x \<lparr>q_langs = l, q_names = n, q_not_names = nn, fuzzy_match = True\<rparr> w0 = (Inr es, w1)"
  shows "list_data x l n nn full w =
          (Inr (),
           w1\<lparr>logged := logged w1 @ [Info (''Found '' @ str_nat (length es))],
              stdout := stdout w1
                @ concat (map (\<lambda>ent. ent_format ent tab @ newline
                                 @ (if full then cite_or ent @ newline @ newline else []))
                            es)
                @ ''Total '' @ str_nat (length es) @ '' entries'' @ newline\<rparr>)"
proof -
  let ?h = "\<lambda>ent. ent_format ent tab @ newline
                   @ (if full then cite_or ent @ newline @ newline else [])"
  have fl: "foldl (\<lambda>w ent.
                     if full then print_end (cite_or ent) (newline @ newline)
                                    (print (ent_format ent tab) w)
                     else print (ent_format ent tab) w)
                   w2 es = w2\<lparr>stdout := stdout w2 @ concat (map ?h es)\<rparr>" for w2 es
    by (rule foldl_stdout) (simp add: print_def print_end_def)
  have "list_data x l n nn full w =
     (Inr (), print (''Total '' @ str_nat (length es) @ '' entries'')
        ((log_info (Info (''Found '' @ str_nat (length es))) w1)
           \<lparr>stdout := stdout (log_info (Info (''Found '' @ str_nat (length es))) w1)
               @ concat (map ?h es)\<rparr>))"
    unfolding list_data_def
    by (simp only: assms prod.case sum.case Let_def fl)
  then show ?thesis
    by (simp add: print_def print_end_def log_info_def)
qed

lemma generate_report_found:
  assumes "import_mtdata_data x w = (Inr (), w0)"
   and g: "get_entries x \<lparr>q_langs = l, q_names = n, q_not_names = nn, fuzzy_match = False\<rparr> w0
           = (Inr es, w1)"
  shows "generate_report x l n nn w =
          (Inr (),
           w1\<lparr>stdout := stdout w1 @ ''Languages:'' @ newline
                @ concat (map (\<lambda>(k, v). k @ tab @ fmt_commas v @ newline)
                            (foldl (\<lambda>st ent. bump (join ''_'' (ent_langs ent)) st) [] es))
                @ newline @ ''Names:'' @ newline
                @ concat (map (\<lambda>(k, v). k @ tab @ fmt_commas v @ newline)
                            (foldl (\<lambda>st ent. bump (ent_name ent) st) [] es))\<rparr>)"
proof -
  have "generate_report x l n nn w =
     (Inr (), print_stats (foldl (\<lambda>st ent. bump (ent_name ent) st) [] es)
        (print (newline @ ''Names:'')
           (print_stats (foldl (\<lambda>st ent. bump (join ''_'' (ent_langs ent)) st) [] es)
              (print ''Languages:'' w1))))"
    unfolding generate_report_def fuzzy_match_default_def
    by (simp only: assms prod.case sum.case Let_def)
  then show ?thesis
    by (simp add: print_stats_stdout print_def print_end_def)
qed

lemma workflows_raise:
  assumes "import_mtdata_data x w = (Inr (), w0)"
  shows "get_entries x \<lparr>q_langs = l, q_names = n, q_not_names = nn, fuzzy_match = True\<rparr> w0
           = (Inl e, w1) \<Longrightarrow> list_data x l n nn full w = (Inl e, w1)"
    and "get_entries x \<lparr>q_langs = l, q_names = n, q_not_names = nn, fuzzy_match = False\<rparr> w0
           = (Inl e, w1) \<Longrightarrow> generate_report x l n nn w = (Inl e, w1)"
  using assms by (simp_all add: list_data_def generate_report_def fuzzy_match_default_def)

lemma digit_one: "digit (Suc 0) = CHR ''1''" "digit 1 = CHR ''1''"
  by code_simp+

lemma sample_entries:
  "get_entries sample_ext q sample_world
   = (Inr [\<lparr>ent_langs = [''deu'', ''eng''], ent_name = ''europarl'', cite = None,
            ent_format = (\<lambda>d. ''Statmt-europarl-10-deu-eng'' @ d @ ''http://example.org'')\<rparr>],
      sample_world)"
  by (simp add: sample_ext_def sample_index_file_def sample_get_entries_def)

lemma with_suffix_bak:
  assumes "Path_name p \<noteq> []"
  shows "\<exists>stem. with_suffix p ''.bak'' = Inr (Path (absolute p) (butlast (parts p) @ [stem @ ''.bak'']))"
  using assms by (auto simp: with_suffix_def Let_def)

lemma sample_with_suffix:
  "with_suffix (cached_index_file sample_ext) ''.bak''
   = Inr (Path True [''home'', ''u'', ''.mtdata'', ''mtdata.index.bak''])"
  by (simp add: with_suffix_def sample_ext_def sample_index_file_def Path_name_def Path_suffix_def rfind_def Let_def)

subsection \<open>The \<^verbatim>\<open>get\<close> workflow and the parsers\<close>

text \<open>
  C1, as the code has it. After a successful \<^verbatim>\<open>get_data\<close> the signature file holds
  what it held when \<^verbatim>\<open>Dataset.prepare\<close> returned, followed by the record of the spec
  taken with the string forms of the parsed identifiers for the \<^verbatim>\<open>-tr\<close> and \<^verbatim>\<open>-ts\<close>
  lists and with the fixed text \<^verbatim>\<open><out-dir>\<close> after \<^verbatim>\<open>-o\<close>.
\<close>

theorem get_data_signature_record:
  assumes "truthy (train_dids a) \<or> truthy (test_dids a)"
    and "import_mtdata_data x w = (Inr (), w0)"
    and "Dataset_prepare x (get_langs a) (train_dids a) (test_dids a) (out a)
           (CACHE_DIR x) (merge a) w0 = (Inr ds, w1)"
  shows "fst (get_data x a w) = Inr ()
       \<and> files (snd (get_data x a w)) (signature_file a)
         = Some ((case files w1 (signature_file a) of None \<Rightarrow> [] | Some c \<Rightarrow> c)
                 @ spec_signature (get_langs a) (map DatasetId_str (items (train_dids a)))
                     (map DatasetId_str (items (test_dids a))) ''<out-dir>''
                     (mtdata_version x))"
  using get_data_success [OF assms] sig_spec [of x a] by simp

theorem get_data_signature_record_witness:
  "(truthy (train_dids sample_get_args) \<or> truthy (test_dids sample_get_args))
   \<and> fst (get_data sample_ext sample_get_args sample_world) = Inr ()
   \<and> files (snd (get_data sample_ext sample_get_args sample_world))
        (signature_file sample_get_args)
      = Some (''earlier record'' @ newline
              @ ''mtdata get -l deu-eng -tr Statmt-newscomm-16-deu-eng -o <out-dir>'' @ newline
              @ ''mtdata version 0.2.8'' @ newline)"
proof -
  have "files (snd (get_data sample_ext sample_get_args sample_world))
          (signature_file sample_get_args)
        = Some (''earlier record'' @ newline
              @ ''mtdata get -l deu-eng -tr Statmt-newscomm-16-deu-eng -o <out-dir>'' @ newline
              @ ''mtdata version 0.2.8'' @ newline)"
    using get_data_signature_record [OF sample_truthy sample_import_ok sample_prepare_ok]
    by (simp add: signature_file_def sample_get_args_def sample_world_def sample_index_file_def tmp_x_def
          Path_div_def spec_signature_def LangPair_str_def deu_eng_def items_def
          DatasetId_str_def sample_did_def sample_ext_def)
  with get_data_signature_record [OF sample_truthy sample_import_ok sample_prepare_ok] sample_truthy
  show ?thesis by simp
qed

text \<open>
  The record is not the one the spec describes. The user gives
  \<^verbatim>\<open>-l deu-eng -tr Statmt-newscomm-16-de-en -o /tmp/x\<close>; the record written has the
  identifier in its parsed form and the text \<^verbatim>\<open><out-dir>\<close>, and differs from the spec's
  record in each of the two places.
\<close>

theorem get_data_signature_counterexample:
  "dataset_id sample_bcp47 sample_check ''Statmt-newscomm-16-de-en''
     = (Inr (sample_did ''newscomm''), [Suggestion ''deu-eng'' ''de-en''])
   \<and> fst (get_data sample_ext sample_get_args sample_world) = Inr ()
   \<and> files (snd (get_data sample_ext sample_get_args sample_world))
        (signature_file sample_get_args)
      = Some (''earlier record'' @ newline @ sig sample_ext sample_get_args)
   \<and> sig sample_ext sample_get_args
      = ''mtdata get -l deu-eng -tr Statmt-newscomm-16-deu-eng -o <out-dir>'' @ newline
        @ ''mtdata version 0.2.8'' @ newline
   \<and> sig sample_ext sample_get_args
      \<noteq> spec_signature deu_eng [''Statmt-newscomm-16-de-en''] [] (Path_str tmp_x) ''0.2.8''
   \<and> sig sample_ext sample_get_args
      \<noteq> spec_signature deu_eng [''Statmt-newscomm-16-deu-eng''] [] (Path_str tmp_x) ''0.2.8''
   \<and> sig sample_ext sample_get_args
      \<noteq> spec_signature deu_eng [''Statmt-newscomm-16-de-en''] [] ''<out-dir>'' ''0.2.8''"
proof -
  have p: "dataset_id sample_bcp47 sample_check ''Statmt-newscomm-16-de-en''
     = (Inr (sample_did ''newscomm''), [Suggestion ''deu-eng'' ''de-en''])"
    by (simp add: dataset_id_def strip_def isspace_def lang_pair_def sample_bcp47_def
          DatasetId_init_def sample_check_def sample_did_def deu_eng_def LangPair_str_def)
  have s: "sig sample_ext sample_get_args
      = ''mtdata get -l deu-eng -tr Statmt-newscomm-16-deu-eng -o <out-dir>'' @ newline
        @ ''mtdata version 0.2.8'' @ newline"
    by (simp add: sig_def cli_sig_def sample_get_args_def truthy_def items_def deu_eng_def
          DatasetId_str_def sample_did_def sample_ext_def sample_index_file_def)
  have f: "files (snd (get_data sample_ext sample_get_args sample_world))
        (signature_file sample_get_args)
      = Some (''earlier record'' @ newline @ sig sample_ext sample_get_args)"
    using get_data_success(2) [OF sample_truthy sample_import_ok sample_prepare_ok]
    by (simp add: signature_file_def sample_get_args_def sample_world_def sample_index_file_def tmp_x_def
          Path_div_def sample_ext_def)
  have n1: "sig sample_ext sample_get_args
      \<noteq> spec_signature deu_eng [''Statmt-newscomm-16-de-en''] [] (Path_str tmp_x) ''0.2.8''"
    unfolding s by (simp add: spec_signature_def LangPair_str_def deu_eng_def Path_str_def
          tmp_x_def newline_def)
  have n2: "sig sample_ext sample_get_args
      \<noteq> spec_signature deu_eng [''Statmt-newscomm-16-deu-eng''] [] (Path_str tmp_x) ''0.2.8''"
    unfolding s by (simp add: spec_signature_def LangPair_str_def deu_eng_def Path_str_def
          tmp_x_def newline_def)
  have n3: "sig sample_ext sample_get_args
      \<noteq> spec_signature deu_eng [''Statmt-newscomm-16-de-en''] [] ''<out-dir>'' ''0.2.8''"
    unfolding s by (simp add: spec_signature_def LangPair_str_def deu_eng_def newline_def)
  from p s f n1 n2 n3 get_data_success(1) [OF sample_truthy sample_import_ok sample_prepare_ok]
  show ?thesis by simp
qed

text \<open>
  C2, as the code has it. When the interpreter does not run with \<^verbatim>\<open>-O\<close>, neither the train
  nor the test identifiers are a non-empty list, and the import of \<^verbatim>\<open>mtdata.data\<close> with
  which \<^verbatim>\<open>get_data\<close> begins has succeeded, \<^verbatim>\<open>get_data\<close> raises \<^verbatim>\<open>AssertionError\<close> with the
  message \<^verbatim>\<open>Required --train or --test or both\<close>, and the world is the one the import
  left: the acquisition step and the signature writer are not called, and \<^verbatim>\<open>get_data\<close>
  writes and logs nothing itself.
\<close>

theorem get_data_requires_ids:
  assumes "\<not> python_O x" and "\<not> truthy (train_dids a)" and "\<not> truthy (test_dids a)"
    and "import_mtdata_data x w = (Inr (), w0)"
  shows "get_data x a w = (Inl (AssertionError ''Required --train or --test or both''), w0)"
  using assms by (simp add: get_data_def)

theorem get_data_requires_ids_witness:
  "\<not> python_O sample_ext \<and> \<not> truthy (train_dids no_ids_args)
   \<and> \<not> truthy (test_dids no_ids_args)
   \<and> import_mtdata_data sample_ext sample_world = (Inr (), sample_world)
   \<and> get_data sample_ext no_ids_args sample_world
      = (Inl (AssertionError ''Required --train or --test or both''), sample_world)"
proof -
  have h1: "\<not> python_O sample_ext" by (simp add: sample_ext_def sample_index_file_def)
  have h2: "\<not> truthy (train_dids no_ids_args)" by (simp add: truthy_def no_ids_args_def)
  have h3: "\<not> truthy (test_dids no_ids_args)" by (simp add: truthy_def no_ids_args_def)
  from get_data_requires_ids [OF h1 h2 h3 sample_import_ok] h1 h2 h3 sample_import_ok
  show ?thesis by simp
qed

text \<open>
  The claim as the spec words it fails in three ways. The message of the exception is not
  \<^verbatim>\<open>train or test or both required\<close>. Under \<^verbatim>\<open>-O\<close> the \<^verbatim>\<open>assert\<close> is gone: with no
  identifiers the acquisition step is called and a record is written. And the import of
  \<^verbatim>\<open>mtdata.data\<close> runs before the \<^verbatim>\<open>assert\<close>: with a module that builds the index cache
  when it is missing, a file has been written by the time the exception is raised.
\<close>

theorem get_data_requires_ids_counterexample:
  "get_data sample_ext no_ids_args sample_world
     = (Inl (AssertionError ''Required --train or --test or both''), sample_world)
   \<and> err_msg (AssertionError ''Required --train or --test or both'')
       \<noteq> ''train or test or both required''
   \<and> fst (get_data (sample_ext\<lparr>python_O := True\<rparr>) no_ids_args sample_world) = Inr ()
   \<and> files (snd (get_data (sample_ext\<lparr>python_O := True\<rparr>) no_ids_args sample_world))
        (signature_file no_ids_args)
      = Some (''earlier record'' @ newline @ ''mtdata get -l deu-eng -o <out-dir>'' @ newline
              @ ''mtdata version 0.2.8'' @ newline)
   \<and> files (snd (get_data sample_ext no_ids_args empty_world)) sample_index_file
      = Some ''index''
   \<and> files empty_world sample_index_file = None"
  by (simp add: get_data_def truthy_def no_ids_args_def sample_ext_def sample_index_file_def sample_import_def
        sample_world_def empty_world_def sample_prepare_def items_def Let_def
        IO_writer_write_def log_info_def signature_file_def Path_div_def tmp_x_def
        sig_def cli_sig_def deu_eng_def)

text \<open>
  C3. When \<^verbatim>\<open>Dataset.prepare\<close> raises, \<^verbatim>\<open>get_data\<close> raises the same exception and the world
  is the one \<^verbatim>\<open>Dataset.prepare\<close> left: \<^verbatim>\<open>get_data\<close> itself logs nothing and writes nothing,
  so the signature file is not written by it.
\<close>

theorem get_data_acquisition_fails:
  assumes "truthy (train_dids a) \<or> truthy (test_dids a)"
    and "import_mtdata_data x w = (Inr (), w0)"
    and "Dataset_prepare x (get_langs a) (train_dids a) (test_dids a) (out a)
           (CACHE_DIR x) (merge a) w0 = (Inl e, w1)"
  shows "get_data x a w = (Inl e, w1)"
  using assms by (simp add: get_data_def)

theorem get_data_acquisition_fails_witness:
  "truthy (test_dids (sample_get_args\<lparr>train_dids := None, test_dids := Some [sample_did ''nosuch'']\<rparr>))
   \<and> get_data sample_ext
        (sample_get_args\<lparr>train_dids := None, test_dids := Some [sample_did ''nosuch'']\<rparr>)
        sample_world
      = (Inl (External ''nosuch: no such dataset in the catalog''),
         sample_world\<lparr>net := [''index'']\<rparr>)
   \<and> files (sample_world\<lparr>net := [''index'']\<rparr>) = files sample_world"
proof -
  let ?a = "sample_get_args\<lparr>train_dids := None, test_dids := Some [sample_did ''nosuch'']\<rparr>"
  have t: "truthy (train_dids ?a) \<or> truthy (test_dids ?a)"
    by (simp add: truthy_def)
  have p: "Dataset_prepare sample_ext (get_langs ?a) (train_dids ?a) (test_dids ?a) (out ?a)
             (CACHE_DIR sample_ext) (merge ?a) sample_world
           = (Inl (External ''nosuch: no such dataset in the catalog''),
              sample_world\<lparr>net := [''index'']\<rparr>)"
    by (simp add: sample_ext_def sample_index_file_def sample_prepare_def items_def sample_did_def sample_world_def)
  from get_data_acquisition_fails [OF t sample_import_ok p] show ?thesis
    by (simp add: truthy_def)
qed

text \<open>
  C6. A successful \<^verbatim>\<open>get_data\<close> writes to \<^verbatim>\<open>mtdata.signature.txt\<close> in the output
  directory. When the file did not exist it holds the record; when it held \<open>old\<close> it now
  holds \<open>old\<close> followed by the record. No other file is changed by the write.
\<close>

theorem get_data_appends_signature:
  assumes "truthy (train_dids a) \<or> truthy (test_dids a)"
    and "import_mtdata_data x w = (Inr (), w0)"
    and "Dataset_prepare x (get_langs a) (train_dids a) (test_dids a) (out a)
           (CACHE_DIR x) (merge a) w0 = (Inr ds, w1)"
  shows "fst (get_data x a w) = Inr ()
       \<and> signature_file a = Path (absolute (out a)) (parts (out a) @ [''mtdata.signature.txt''])
       \<and> (files w1 (signature_file a) = None
            \<longrightarrow> files (snd (get_data x a w)) (signature_file a) = Some (sig x a))
       \<and> (\<forall>old. files w1 (signature_file a) = Some old
            \<longrightarrow> files (snd (get_data x a w)) (signature_file a) = Some (old @ sig x a))
       \<and> (\<forall>p. p \<noteq> signature_file a \<longrightarrow> files (snd (get_data x a w)) p = files w1 p)"
  using get_data_success [OF assms] by (simp add: signature_file_def Path_div_def)

theorem get_data_appends_signature_witness:
  "(truthy (train_dids sample_get_args) \<or> truthy (test_dids sample_get_args))
   \<and> files sample_world (signature_file sample_get_args) = Some (''earlier record'' @ newline)
   \<and> fst (get_data sample_ext sample_get_args sample_world) = Inr ()
   \<and> files (snd (get_data sample_ext sample_get_args sample_world))
        (signature_file sample_get_args)
      = Some (''earlier record'' @ newline @ sig sample_ext sample_get_args)"
proof -
  have old: "files sample_world (signature_file sample_get_args)
             = Some (''earlier record'' @ newline)"
    by (simp add: signature_file_def sample_get_args_def sample_world_def sample_index_file_def tmp_x_def
          Path_div_def sample_ext_def)
  have old1: "files (sample_world\<lparr>files := (files sample_world)(Path_div tmp_x ''train.deu'' \<mapsto> ''Hallo''),
        net := [''download'']\<rparr>) (signature_file sample_get_args)
             = Some (''earlier record'' @ newline)"
    by (simp add: signature_file_def sample_get_args_def sample_world_def sample_index_file_def tmp_x_def
          Path_div_def sample_ext_def)
  note th = get_data_appends_signature [OF sample_truthy sample_import_ok sample_prepare_ok]
  from th have a: "fst (get_data sample_ext sample_get_args sample_world) = Inr ()"
    by (rule conjunct1)
  from th old1 have b: "files (snd (get_data sample_ext sample_get_args sample_world))
        (signature_file sample_get_args)
      = Some ((''earlier record'' @ newline) @ sig sample_ext sample_get_args)"
    by blast
  from a b old sample_truthy show ?thesis by simp
qed

text \<open>
  C8. When the stripped input splits on \<^verbatim>\<open>-\<close> into exactly five parts, the registry
  resolves the last two, and the constructor accepts the values, \<^verbatim>\<open>dataset_id\<close> returns an
  identifier whose group, name and version are the first three parts and whose languages
  are the resolved tags, and the first three fields of its string form, split on
  \<^verbatim>\<open>-\<close>, are the first three fields of \<^verbatim>\<open>s.strip().split('-')\<close>.
\<close>

theorem dataset_id_fields_verbatim:
  assumes "split CHR ''-'' (strip s) = [g, n, v, l1, l2]"
    and "reg l1 = Inr t1" and "reg l2 = Inr t2"
    and "chk g n v (t1, t2) = None"
  shows "\<exists>d lg. dataset_id reg chk s = (Inr d, lg)
           \<and> group d = g \<and> name d = n \<and> version d = v \<and> langs d = (t1, t2)
           \<and> take 3 (split CHR ''-'' (DatasetId_str d)) = take 3 (split CHR ''-'' (strip s))"
proof -
  have nosep: "CHR ''-'' \<notin> set g" "CHR ''-'' \<notin> set n" "CHR ''-'' \<notin> set v"
    "CHR ''-'' \<notin> set l1" "CHR ''-'' \<notin> set l2"
    using split_parts_no_sep [of _ "CHR ''-''" "strip s"] assms(1) by simp_all
  have two: "split CHR ''-'' (l1 @ ''-'' @ l2) = [l1, l2]"
    using nosep by (rule_tac split_two)
  obtain lg where lp: "lang_pair reg (l1 @ ''-'' @ l2) = (Inr (t1, t2), lg)"
    using two assms(2,3) by (simp add: lang_pair_def Let_def)
  let ?d = "\<lparr>group = g, name = n, version = v, langs = (t1, t2)\<rparr>"
  have r: "dataset_id reg chk s = (Inr ?d, lg)"
    using assms(1,4) lp by (simp add: dataset_id_def DatasetId_init_def Let_def)
  have "split CHR ''-'' (DatasetId_str ?d)
        = g # n # v # split CHR ''-'' (tag_str t1 @ ''-'' @ tag_str t2)"
    using nosep by (simp add: DatasetId_str_def split_append_sep)
  then have "take 3 (split CHR ''-'' (DatasetId_str ?d)) = take 3 (split CHR ''-'' (strip s))"
    by (simp add: assms(1))
  with r show ?thesis by auto
qed

theorem dataset_id_fields_verbatim_witness:
  "split CHR ''-'' (strip '' Statmt-newscomm-16-de-en '')
     = [''Statmt'', ''newscomm'', ''16'', ''de'', ''en'']
   \<and> sample_bcp47 ''de'' = Inr (BCP47Tag ''deu'') \<and> sample_bcp47 ''en'' = Inr (BCP47Tag ''eng'')
   \<and> sample_check ''Statmt'' ''newscomm'' ''16'' (BCP47Tag ''deu'', BCP47Tag ''eng'') = None
   \<and> (\<exists>d lg. dataset_id sample_bcp47 sample_check '' Statmt-newscomm-16-de-en '' = (Inr d, lg)
         \<and> group d = ''Statmt'' \<and> name d = ''newscomm'' \<and> version d = ''16''
         \<and> langs d = (BCP47Tag ''deu'', BCP47Tag ''eng'')
         \<and> take 3 (split CHR ''-'' (DatasetId_str d))
           = take 3 (split CHR ''-'' (strip '' Statmt-newscomm-16-de-en '')))"
proof -
  have h1: "split CHR ''-'' (strip '' Statmt-newscomm-16-de-en '')
     = [''Statmt'', ''newscomm'', ''16'', ''de'', ''en'']"
    by (simp add: strip_def isspace_def)
  have h2: "sample_bcp47 ''de'' = Inr (BCP47Tag ''deu'')" by (simp add: sample_bcp47_def)
  have h3: "sample_bcp47 ''en'' = Inr (BCP47Tag ''eng'')" by (simp add: sample_bcp47_def)
  have h4: "sample_check ''Statmt'' ''newscomm'' ''16'' (BCP47Tag ''deu'', BCP47Tag ''eng'') = None"
    by (simp add: sample_check_def)
  note c = dataset_id_fields_verbatim
    [where reg = sample_bcp47 and chk = sample_check, OF h1 h2 h3 h4]
  show ?thesis
    by (rule conjI [OF h1 conjI [OF h2 conjI [OF h3 conjI [OF h4 c]]]])
qed

text \<open>
  C9. When the input splits on \<^verbatim>\<open>-\<close> into two codes that are both in canonical form,
  \<^verbatim>\<open>lang_pair\<close> returns a pair and logs no suggestion, the string form of the pair is
  the input, and parsing that string form gives the same result again.
\<close>

theorem lang_pair_idempotent:
  assumes "split CHR ''-'' s = [c1, c2]" and "canonical reg c1" and "canonical reg c2"
  shows "\<exists>l. lang_pair reg s = (Inr l, []) \<and> LangPair_str l = s
           \<and> lang_pair reg (LangPair_str l) = lang_pair reg s"
proof -
  obtain t1 where t1: "reg c1 = Inr t1" "tag_str t1 = c1"
    using canonicalD [OF assms(2)] by blast
  obtain t2 where t2: "reg c2 = Inr t2" "tag_str t2 = c2"
    using canonicalD [OF assms(3)] by blast
  have s: "s = c1 @ ''-'' @ c2"
    using join_split [of "CHR ''-''" s] assms(1) by simp
  have str: "LangPair_str (t1, t2) = s"
    by (simp add: LangPair_str_def t1 t2 s)
  have "lang_pair reg s = (Inr (t1, t2), [])"
    unfolding lang_pair_def using assms(1) t1 t2 str by (simp add: Let_def)
  with str show ?thesis by simp
qed

theorem lang_pair_idempotent_witness:
  "split CHR ''-'' ''deu-eng'' = [''deu'', ''eng'']
   \<and> canonical sample_bcp47 ''deu'' \<and> canonical sample_bcp47 ''eng''
   \<and> lang_pair sample_bcp47 ''deu-eng'' = (Inr deu_eng, [])
   \<and> lang_pair sample_bcp47 (LangPair_str deu_eng) = lang_pair sample_bcp47 ''deu-eng''"
proof -
  have h1: "split CHR ''-'' ''deu-eng'' = [''deu'', ''eng'']" by simp
  have h2: "canonical sample_bcp47 ''deu''" by (simp add: canonical_def sample_bcp47_def)
  have h3: "canonical sample_bcp47 ''eng''" by (simp add: canonical_def sample_bcp47_def)
  have v: "lang_pair sample_bcp47 ''deu-eng'' = (Inr deu_eng, [])"
    by (simp add: lang_pair_def sample_bcp47_def deu_eng_def LangPair_str_def)
  from lang_pair_idempotent [OF h1 h2 h3] v h1 h2 h3 show ?thesis by auto
qed

subsection \<open>The catalog queries, the reindexing step and the dispatch\<close>

text \<open>
  C4. After the import, \<^verbatim>\<open>list_data\<close> calls the catalog with the language pair and the
  name filters it was given and with fuzzy matching on, and \<^verbatim>\<open>generate_report\<close> calls it
  with the same filters and with fuzzy matching off. What each does is a function of the
  answer to that one query: an exception is passed on; a list of entries is logged and
  printed entry by entry with its total, or counted by language pair and by name and
  printed as two tables.
\<close>

theorem list_report_fuzzy:
  assumes "import_mtdata_data x w = (Inr (), w0)"
  shows "list_data x l n nn full w =
     (case get_entries x
             \<lparr>q_langs = l, q_names = n, q_not_names = nn, fuzzy_match = True\<rparr> w0 of
        (Inl e, w1) \<Rightarrow> (Inl e, w1)
      | (Inr es, w1) \<Rightarrow>
          (Inr (),
           w1\<lparr>logged := logged w1 @ [Info (''Found '' @ str_nat (length es))],
              stdout := stdout w1
                @ concat (map (\<lambda>ent. ent_format ent tab @ newline
                                 @ (if full then cite_or ent @ newline @ newline else []))
                            es)
                @ ''Total '' @ str_nat (length es) @ '' entries'' @ newline\<rparr>))
   \<and> generate_report x l n nn w =
     (case get_entries x
             \<lparr>q_langs = l, q_names = n, q_not_names = nn, fuzzy_match = False\<rparr> w0 of
        (Inl e, w1) \<Rightarrow> (Inl e, w1)
      | (Inr es, w1) \<Rightarrow>
          (Inr (),
           w1\<lparr>stdout := stdout w1 @ ''Languages:'' @ newline
                @ concat (map (\<lambda>(k, v). k @ tab @ fmt_commas v @ newline)
                            (foldl (\<lambda>st ent. bump (join ''_'' (ent_langs ent)) st) [] es))
                @ newline @ ''Names:'' @ newline
                @ concat (map (\<lambda>(k, v). k @ tab @ fmt_commas v @ newline)
                            (foldl (\<lambda>st ent. bump (ent_name ent) st) [] es))\<rparr>))"
proof
  let ?q = "\<lparr>q_langs = l, q_names = n, q_not_names = nn, fuzzy_match = True\<rparr>"
  obtain r w1 where g: "get_entries x ?q w0 = (r, w1)"
    by (cases "get_entries x ?q w0")
  show "list_data x l n nn full w =
     (case get_entries x ?q w0 of
        (Inl e, w1) \<Rightarrow> (Inl e, w1)
      | (Inr es, w1) \<Rightarrow>
          (Inr (),
           w1\<lparr>logged := logged w1 @ [Info (''Found '' @ str_nat (length es))],
              stdout := stdout w1
                @ concat (map (\<lambda>ent. ent_format ent tab @ newline
                                 @ (if full then cite_or ent @ newline @ newline else []))
                            es)
                @ ''Total '' @ str_nat (length es) @ '' entries'' @ newline\<rparr>))"
  proof (cases r)
    case (Inl e)
    with g have g': "get_entries x ?q w0 = (Inl e, w1)" by simp
    show ?thesis
      by (simp only: g' workflows_raise(1) [OF assms g'] prod.case sum.case)
  next
    case (Inr es)
    with g have g': "get_entries x ?q w0 = (Inr es, w1)" by simp
    show ?thesis
      by (simp only: g' list_data_found [OF assms g'] prod.case sum.case)
  qed
next
  let ?q = "\<lparr>q_langs = l, q_names = n, q_not_names = nn, fuzzy_match = False\<rparr>"
  obtain r w1 where g: "get_entries x ?q w0 = (r, w1)"
    by (cases "get_entries x ?q w0")
  show "generate_report x l n nn w =
     (case get_entries x ?q w0 of
        (Inl e, w1) \<Rightarrow> (Inl e, w1)
      | (Inr es, w1) \<Rightarrow>
          (Inr (),
           w1\<lparr>stdout := stdout w1 @ ''Languages:'' @ newline
                @ concat (map (\<lambda>(k, v). k @ tab @ fmt_commas v @ newline)
                            (foldl (\<lambda>st ent. bump (join ''_'' (ent_langs ent)) st) [] es))
                @ newline @ ''Names:'' @ newline
                @ concat (map (\<lambda>(k, v). k @ tab @ fmt_commas v @ newline)
                            (foldl (\<lambda>st ent. bump (ent_name ent) st) [] es))\<rparr>))"
  proof (cases r)
    case (Inl e)
    with g have g': "get_entries x ?q w0 = (Inl e, w1)" by simp
    show ?thesis
      by (simp only: g' workflows_raise(2) [OF assms g'] prod.case sum.case)
  next
    case (Inr es)
    with g have g': "get_entries x ?q w0 = (Inr es, w1)" by simp
    show ?thesis
      by (simp only: g' generate_report_found [OF assms g'] prod.case sum.case)
  qed
qed

theorem list_report_fuzzy_witness:
  "import_mtdata_data sample_ext sample_world = (Inr (), sample_world)
   \<and> stdout (snd (list_data sample_ext None None None True sample_world))
     = ''Statmt-europarl-10-deu-eng'' @ tab @ ''http://example.org'' @ newline
       @ ''CITATION_NOT_LISTED'' @ newline @ newline @ ''Total 1 entries'' @ newline
   \<and> stdout (snd (generate_report sample_ext None None None sample_world))
     = ''Languages:'' @ newline @ ''deu_eng'' @ tab @ ''1'' @ newline @ newline
       @ ''Names:'' @ newline @ ''europarl'' @ tab @ ''1'' @ newline"
proof -
  note th = list_report_fuzzy [OF sample_import_ok, of None None None]
  note l = th [of True, THEN conjunct1, unfolded sample_entries prod.case sum.case]
  note r = th [of True, THEN conjunct2, unfolded sample_entries prod.case sum.case]
  have a: "stdout (snd (list_data sample_ext None None None True sample_world))
     = ''Statmt-europarl-10-deu-eng'' @ tab @ ''http://example.org'' @ newline
       @ ''CITATION_NOT_LISTED'' @ newline @ newline @ ''Total 1 entries'' @ newline"
    unfolding l by (simp add: cite_or_def sample_world_def sample_index_file_def digit_one)
  have b: "stdout (snd (generate_report sample_ext None None None sample_world))
     = ''Languages:'' @ newline @ ''deu_eng'' @ tab @ ''1'' @ newline @ newline
       @ ''Names:'' @ newline @ ''europarl'' @ tab @ ''1'' @ newline"
    unfolding r by (simp add: bump_def sample_world_def sample_index_file_def digit_one)
  from sample_import_ok a b show ?thesis by simp
qed

text \<open>
  C5. With \<^verbatim>\<open>-ri\<close> and an existing cached index file, \<^verbatim>\<open>main\<close> first computes the
  \<^verbatim>\<open>.bak\<close> sibling of the file (same directory, name ending in \<^verbatim>\<open>.bak\<close>), logs the rename
  and renames: the sibling now has the content the index had, the index is gone, every
  other file is as it was, and the subcommand runs in that world. When the cached index
  file does not exist, the subcommand runs in the unchanged world.
\<close>

theorem main_reindex_renames:
  "(reindex args \<and> Path_exists w (cached_index_file x) \<and> Path_name (cached_index_file x) \<noteq> []
     \<longrightarrow> (\<exists>bak w1. with_suffix (cached_index_file x) ''.bak'' = Inr bak
            \<and> absolute bak = absolute (cached_index_file x)
            \<and> butlast (parts bak) = butlast (parts (cached_index_file x))
            \<and> suffix ''.bak'' (Path_name bak)
            \<and> main_reindex x args w = (Inr (), w1)
            \<and> files w1 bak = files w (cached_index_file x)
            \<and> (bak \<noteq> cached_index_file x \<longrightarrow> files w1 (cached_index_file x) = None)
            \<and> (\<forall>p. p \<noteq> cached_index_file x \<and> p \<noteq> bak \<longrightarrow> files w1 p = files w p)
            \<and> logged w1 = logged w @ [Info (''Invalidate index: ''
                 @ Path_str (cached_index_file x) @ '' -> '' @ Path_str bak)]
            \<and> main x args w = main_dispatch x args w1))
   \<and> (\<not> Path_exists w (cached_index_file x)
        \<longrightarrow> main_reindex x args w = (Inr (), w) \<and> main x args w = main_dispatch x args w)"
proof (intro conjI impI)
  assume h: "reindex args \<and> Path_exists w (cached_index_file x)
             \<and> Path_name (cached_index_file x) \<noteq> []"
  let ?c = "cached_index_file x"
  obtain stem where ws: "with_suffix ?c ''.bak''
      = Inr (Path (absolute ?c) (butlast (parts ?c) @ [stem @ ''.bak'']))"
    using with_suffix_bak [of ?c] h by blast
  let ?bak = "Path (absolute ?c) (butlast (parts ?c) @ [stem @ ''.bak''])"
  let ?w1 = "Path_rename ?c ?bak (log_info (Info (''Invalidate index: ''
                 @ Path_str ?c @ '' -> '' @ Path_str ?bak)) w)"
  have r: "main_reindex x args w = (Inr (), ?w1)"
    using h ws by (simp add: main_reindex_def Let_def)
  have 1: "suffix ''.bak'' (Path_name ?bak)"
    by (simp add: Path_name_def suffix_def)
  have 2: "files ?w1 ?bak = files w ?c"
    by (simp add: Path_rename_def log_info_def)
  have 3: "?bak \<noteq> ?c \<longrightarrow> files ?w1 ?c = None"
    by (simp add: Path_rename_def log_info_def)
  have 4: "\<forall>p. p \<noteq> ?c \<and> p \<noteq> ?bak \<longrightarrow> files ?w1 p = files w p"
    by (simp add: Path_rename_def log_info_def)
  have 5: "logged ?w1 = logged w @ [Info (''Invalidate index: ''
                 @ Path_str ?c @ '' -> '' @ Path_str ?bak)]"
    by (simp add: Path_rename_def log_info_def)
  have 6: "main x args w = main_dispatch x args ?w1"
    by (simp add: main_def r)
  have 7: "absolute ?bak = absolute ?c" "butlast (parts ?bak) = butlast (parts ?c)"
    by simp_all
  from ws r 1 2 3 4 5 6 7
  show "\<exists>bak w1. with_suffix ?c ''.bak'' = Inr bak
            \<and> absolute bak = absolute ?c
            \<and> butlast (parts bak) = butlast (parts ?c)
            \<and> suffix ''.bak'' (Path_name bak)
            \<and> main_reindex x args w = (Inr (), w1)
            \<and> files w1 bak = files w ?c
            \<and> (bak \<noteq> ?c \<longrightarrow> files w1 ?c = None)
            \<and> (\<forall>p. p \<noteq> ?c \<and> p \<noteq> bak \<longrightarrow> files w1 p = files w p)
            \<and> logged w1 = logged w @ [Info (''Invalidate index: ''
                 @ Path_str ?c @ '' -> '' @ Path_str bak)]
            \<and> main x args w = main_dispatch x args w1"
    by blast
next
  assume "\<not> Path_exists w (cached_index_file x)"
  then show "main_reindex x args w = (Inr (), w)" by (simp add: main_reindex_def)
next
  assume "\<not> Path_exists w (cached_index_file x)"
  then show "main x args w = main_dispatch x args w" by (simp add: main_def main_reindex_def)
qed

theorem main_reindex_renames_witness:
  "reindex sample_namespace \<and> Path_exists sample_world (cached_index_file sample_ext)
   \<and> Path_name (cached_index_file sample_ext) \<noteq> []
   \<and> files (snd (main_reindex sample_ext sample_namespace sample_world))
        (Path True [''home'', ''u'', ''.mtdata'', ''mtdata.index.bak'']) = Some ''index''
   \<and> files (snd (main_reindex sample_ext sample_namespace sample_world))
        (cached_index_file sample_ext) = None
   \<and> files (snd (main_reindex sample_ext sample_namespace sample_world))
        (Path_div tmp_x ''mtdata.signature.txt'') = Some (''earlier record'' @ newline)"
proof -
  let ?c = "cached_index_file sample_ext"
  let ?b = "Path True [''home'', ''u'', ''.mtdata'', ''mtdata.index.bak'']"
  have h: "reindex sample_namespace \<and> Path_exists sample_world ?c \<and> Path_name ?c \<noteq> []"
    by (simp add: sample_namespace_def Path_exists_def sample_world_def sample_index_file_def sample_ext_def
          Path_name_def)
  have c: "?c = Path True [''home'', ''u'', ''.mtdata'', ''mtdata.index.pkl'']"
    by (simp add: sample_ext_def sample_index_file_def)
  from main_reindex_renames [of sample_namespace sample_world sample_ext] h
  obtain bak w1 where
    b: "with_suffix ?c ''.bak'' = Inr bak"
    and r: "main_reindex sample_ext sample_namespace sample_world = (Inr (), w1)"
    and f1: "files w1 bak = files sample_world ?c"
    and f2: "bak \<noteq> ?c \<longrightarrow> files w1 ?c = None"
    and f3: "\<forall>p. p \<noteq> ?c \<and> p \<noteq> bak \<longrightarrow> files w1 p = files sample_world p"
    by blast
  from b sample_with_suffix have bak: "bak = ?b" by simp
  have ne: "?b \<noteq> ?c" by (simp add: c)
  have s: "Path_div tmp_x ''mtdata.signature.txt'' \<noteq> ?c"
          "Path_div tmp_x ''mtdata.signature.txt'' \<noteq> ?b"
    by (simp_all add: c Path_div_def tmp_x_def)
  have v1: "files sample_world ?c = Some ''index''"
    by (simp add: c sample_world_def sample_index_file_def Path_div_def tmp_x_def)
  have v2: "files sample_world (Path_div tmp_x ''mtdata.signature.txt'')
            = Some (''earlier record'' @ newline)"
    by (simp add: sample_world_def sample_index_file_def Path_div_def tmp_x_def)
  from f1 f2 f3 bak ne s v1 v2 r h show ?thesis by simp
qed

text \<open>
  C10. When \<^verbatim>\<open>parse_args\<close> accepts an argument vector, the task of the namespace is
  \<^verbatim>\<open>list\<close>, \<^verbatim>\<open>get\<close> or \<^verbatim>\<open>report\<close>, the namespace holds the attributes of the subparser of
  that name, and the dispatch in \<^verbatim>\<open>main\<close> runs \<^verbatim>\<open>list_data\<close>, \<^verbatim>\<open>get_data\<close> or
  \<^verbatim>\<open>generate_report\<close> on them: the \<^verbatim>\<open>list_exp\<close> branch, which calls \<^verbatim>\<open>list_experiments\<close>,
  and the final \<^verbatim>\<open>else\<close> are not taken.
\<close>

theorem parse_args_task_registered:
  assumes "parse_args ap x argv w = (Inr args, w')"
  shows "task args \<in> {''list'', ''get'', ''report''}
       \<and> main_branch (task args) \<noteq> RunListExp \<and> main_branch (task args) \<noteq> RunElse
       \<and> ((\<exists>l n nn f od. task args = ''list'' \<and> sub args = ListArgs l n nn f od
               \<and> (\<forall>w1. main_dispatch x args w1 = list_data x l n nn f w1))
          \<or> (\<exists>a. task args = ''get'' \<and> sub args = GetArgs a
               \<and> (\<forall>w1. main_dispatch x args w1 = get_data x a w1))
          \<or> (\<exists>l n nn. task args = ''report'' \<and> sub args = ReportArgs l n nn
               \<and> (\<forall>w1. main_dispatch x args w1 = generate_report x l n nn w1)))"
proof -
  from assms obtain vb ri cmd cargs sa lg where
    top: "top_options ap argv = Inr (vb, ri, cmd # cargs)"
    and sp: "sub_ps ap x cmd cargs = Some (Inr sa, lg)"
    and args: "args = \<lparr>verbose = vb, reindex = ri, task = cmd, sub = sa\<rparr>"
    by (auto simp: parse_args_def Let_def
          split: sum.splits prod.splits list.splits option.splits if_splits)
  from sp consider
      (list) l n nn f od where "cmd = ''list''" "sa = ListArgs l n nn f od"
    | (get) a where "cmd = ''get''" "sa = GetArgs a"
    | (report) l n nn where "cmd = ''report''" "sa = ReportArgs l n nn"
    by (auto simp: sub_ps_def split: if_splits sum.splits prod.splits)
  then show ?thesis
  proof cases
    case list
    then show ?thesis
      by (simp add: args main_branch_def main_dispatch_def)
  next
    case get
    then show ?thesis
      by (simp add: args main_branch_def main_dispatch_def)
  next
    case report
    then show ?thesis
      by (simp add: args main_branch_def main_dispatch_def)
  qed
qed

theorem parse_args_task_registered_witness:
  "parse_args sample_argparse sample_ext [''-ri'', ''report''] sample_world
     = (Inr \<lparr>verbose = False, reindex = True, task = ''report'',
              sub = ReportArgs None None None\<rparr>, sample_world)
   \<and> main_dispatch sample_ext
        \<lparr>verbose = False, reindex = True, task = ''report'', sub = ReportArgs None None None\<rparr>
        empty_world
      = generate_report sample_ext None None None empty_world
   \<and> fst (parse_args sample_argparse sample_ext [''-ri'', ''list_exp''] sample_world)
      = Inl (ArgparseExit ''argument task: invalid choice: list_exp'')"
proof -
  let ?ns = "\<lparr>verbose = False, reindex = True, task = ''report'',
              sub = ReportArgs None None None\<rparr>"
  have p: "parse_args sample_argparse sample_ext [''-ri'', ''report''] sample_world
           = (Inr ?ns, sample_world)"
    by (simp add: parse_args_def sample_argparse_def sub_ps_def Let_def)
  have e: "fst (parse_args sample_argparse sample_ext [''-ri'', ''list_exp''] sample_world)
      = Inl (ArgparseExit ''argument task: invalid choice: list_exp'')"
    by (simp add: parse_args_def sample_argparse_def sub_ps_def Let_def)
  from parse_args_task_registered [OF p]
  have "main_dispatch sample_ext ?ns empty_world
        = generate_report sample_ext None None None empty_world"
    by simp
  with p e show ?thesis by simp
qed

end
